theory Spec2Isabelle
  imports Complex_Main "HOL-Library.Word" "HOL-Library.Monad_Syntax"
begin

unbundle bit_operations_syntax

section \<open>Go values\<close>

text \<open>
  The package \<^verbatim>\<open>sql\<close> (file \<^verbatim>\<open>sql/type.go\<close>) works on values of the empty interface
  \<^verbatim>\<open>interface{}\<close>, dispatching on their dynamic type. A value is modelled by its dynamic
  type together with its contents. Go's \<^verbatim>\<open>int\<close> and \<^verbatim>\<open>uint\<close> are 64 bits wide, as on
  every 64-bit target of the Go compiler. Strings and byte slices are lists of bytes
  (\<^typ>\<open>char\<close> is a byte). The 32-bit and 64-bit floating-point values are carried as
  their IEEE 754 bit patterns.
\<close>

datatype Location = UTC | Local

text \<open>
  A \<^verbatim>\<open>time.Time\<close> is an instant (seconds and nanoseconds since the Unix epoch) in a
  location. The optional monotonic clock reading of a \<^verbatim>\<open>time.Time\<close> is not modelled.
\<close>

datatype Time = Time (unixSec: int) (nanos: int) (location: Location)

datatype iface =
    VNil
  | VInt "64 word"
  | VInt8 "8 word"
  | VInt16 "16 word"
  | VInt32 "32 word"
  | VInt64 "64 word"
  | VUint "64 word"
  | VUint8 "8 word"
  | VUint16 "16 word"
  | VUint32 "32 word"
  | VUint64 "64 word"
  | VFloat32 "32 word"
  | VFloat64 "64 word"
  | VString string
  | VBool bool
  | VBytes string
  | VTime Time
  | VOther string "string option"
    \<comment> \<open>a value of any other dynamic type: the type's name, and the result of its
        \<^verbatim>\<open>String()\<close> method when the type implements \<^verbatim>\<open>fmt.Stringer\<close>\<close>

text \<open>
  The errors of the package. \<^verbatim>\<open>ErrInvalidType\<close> is the package's sentinel; the others
  are built by \<^verbatim>\<open>fmt.Errorf\<close>, and are kept here with the arguments of the format string
  instead of the formatted text.
\<close>

datatype error =
    ErrInvalidType
  | ErrNotNil iface                \<comment> \<open>\<^verbatim>\<open>"value not nil: %#v"\<close>\<close>
  | ErrOverflowsInt32 int          \<comment> \<open>\<^verbatim>\<open>"value %d overflows int32"\<close>\<close>
  | ErrOverflowsInt64 int          \<comment> \<open>\<^verbatim>\<open>"value %d overflows int64"\<close>\<close>
  | ErrCantConvertInt32 string     \<comment> \<open>\<^verbatim>\<open>"value %q can't be converted to int32"\<close>\<close>
  | ErrCantConvertInt64 string     \<comment> \<open>\<^verbatim>\<open>"value %q can't be converted to int64"\<close>\<close>
  | ErrCantConvertTime string      \<comment> \<open>\<^verbatim>\<open>"value %q can't be converted to time.Time"\<close>\<close>
  | ErrExpectedValues nat nat      \<comment> \<open>\<^verbatim>\<open>"expected %d values, got %d"\<close>\<close>
  | ErrUnexpectedType nat string   \<comment> \<open>\<^verbatim>\<open>"value at %d has unexpected type: %s"\<close>\<close>

text \<open>
  A call of Go either returns or panics. The panics of this package are failed type
  assertions, method calls on a nil interface, indexing out of range, and the explicit \<^verbatim>\<open>panic(err)\<close> of
  \<^verbatim>\<open>MustConvert\<close>.
\<close>

datatype panic =
    TypeAssertionFailed
  | NilDereference
  | IndexOutOfRange
  | MustConvertFailed error

datatype 'a go = Return 'a | Panic panic

section \<open>The standard library: \<^verbatim>\<open>strconv.Atoi\<close>\<close>

definition isDigit :: "char \<Rightarrow> bool" where
  "isDigit c = (48 \<le> (of_char c :: nat) \<and> (of_char c :: nat) \<le> 57)"

definition digitVal :: "char \<Rightarrow> int" where
  "digitVal c = of_char c - 48"

fun parseDigits :: "int \<Rightarrow> string \<Rightarrow> int option" where
  "parseDigits n [] = Some n"
| "parseDigits n (c # cs) =
     (if isDigit c then parseDigits (n * 10 + digitVal c) cs else None)"

text \<open>
  \<^verbatim>\<open>strconv.Atoi(s)\<close> is \<^verbatim>\<open>ParseInt(s, 10, 0)\<close>: an optional sign, then at least one
  decimal digit and nothing else; a value that does not fit the 64-bit \<^verbatim>\<open>int\<close> is a
  range error. \<open>None\<close> stands for both errors, the callers do not tell them apart.
\<close>

definition strconv_Atoi :: "string \<Rightarrow> 64 word option" where
  "strconv_Atoi s =
     (case s of
        [] \<Rightarrow> None
      | c # cs \<Rightarrow>
          (let neg = (c = CHR ''-'');
               ds = (if c = CHR ''+'' \<or> c = CHR ''-'' then cs else s)
           in if ds = [] then None
              else (case parseDigits 0 ds of
                      None \<Rightarrow> None
                    | Some n \<Rightarrow>
                        if neg then (if 2 ^ 63 < n then None else Some (word_of_int (- n)))
                        else (if 2 ^ 63 \<le> n then None else Some (word_of_int n)))))"

section \<open>Integer and BigInteger\<close>

fun checkInt32 :: "iface \<Rightarrow> bool" where
  "checkInt32 (VInt32 _) = True"
| "checkInt32 _ = False"

fun convertToInt32 :: "iface \<Rightarrow> error + iface" where
  "convertToInt32 (VInt i) = Inr (VInt32 (ucast i))"
| "convertToInt32 (VInt8 i) = Inr (VInt32 (scast i))"
| "convertToInt32 (VInt16 i) = Inr (VInt32 (scast i))"
| "convertToInt32 (VInt32 i) = Inr (VInt32 i)"
| "convertToInt32 (VInt64 i64) =
     (if sint i64 > 2 ^ 31 - 1 \<or> sint i64 < - (2 ^ 31)
      then Inl (ErrOverflowsInt32 (sint i64))
      else Inr (VInt32 (ucast i64)))"
| "convertToInt32 (VUint8 u) = Inr (VInt32 (ucast u))"
| "convertToInt32 (VUint16 u) = Inr (VInt32 (ucast u))"
| "convertToInt32 (VUint u) =
     (if uint u > 2 ^ 31 - 1 then Inl (ErrOverflowsInt32 (uint u))
      else Inr (VInt32 (ucast u)))"
| "convertToInt32 (VUint32 u) =
     (if uint u > 2 ^ 31 - 1 then Inl (ErrOverflowsInt32 (uint u))
      else Inr (VInt32 (ucast u)))"
| "convertToInt32 (VUint64 u) =
     (if uint u > 2 ^ 31 - 1 then Inl (ErrOverflowsInt32 (uint u))
      else Inr (VInt32 (ucast u)))"
| "convertToInt32 (VString s) =
     (case strconv_Atoi s of
        None \<Rightarrow> Inl (ErrCantConvertInt32 s)
      | Some i \<Rightarrow> Inr (VInt32 (ucast i)))"
| "convertToInt32 _ = Inl ErrInvalidType"

definition compareInt32 :: "iface \<Rightarrow> iface \<Rightarrow> int go" where
  "compareInt32 a b =
     (case a of
        VInt32 av \<Rightarrow>
          (case b of
             VInt32 bv \<Rightarrow>
               Return (if sint av < sint bv then - 1 else if sint av > sint bv then 1 else 0)
           | _ \<Rightarrow> Panic TypeAssertionFailed)
      | _ \<Rightarrow> Panic TypeAssertionFailed)"

fun checkInt64 :: "iface \<Rightarrow> bool" where
  "checkInt64 (VInt64 _) = True"
| "checkInt64 _ = False"

fun convertToInt64 :: "iface \<Rightarrow> error + iface" where
  "convertToInt64 (VInt i) = Inr (VInt64 i)"
| "convertToInt64 (VInt8 i) = Inr (VInt64 (scast i))"
| "convertToInt64 (VInt16 i) = Inr (VInt64 (scast i))"
| "convertToInt64 (VInt32 i) = Inr (VInt64 (scast i))"
| "convertToInt64 (VInt64 i) = Inr (VInt64 i)"
| "convertToInt64 (VUint u) = Inr (VInt64 u)"
| "convertToInt64 (VUint8 u) = Inr (VInt64 (ucast u))"
| "convertToInt64 (VUint16 u) = Inr (VInt64 (ucast u))"
| "convertToInt64 (VUint32 u) = Inr (VInt64 (ucast u))"
| "convertToInt64 (VUint64 u) =
     (if uint u \<ge> 2 ^ 63 then Inl (ErrOverflowsInt64 (uint u))
      else Inr (VInt64 u))"
| "convertToInt64 (VString s) =
     (case strconv_Atoi s of
        None \<Rightarrow> Inl (ErrCantConvertInt64 s)
      | Some i \<Rightarrow> Inr (VInt64 i))"
| "convertToInt64 _ = Inl ErrInvalidType"

definition compareInt64 :: "iface \<Rightarrow> iface \<Rightarrow> int go" where
  "compareInt64 a b =
     (case a of
        VInt64 av \<Rightarrow>
          (case b of
             VInt64 bv \<Rightarrow>
               Return (if sint av < sint bv then - 1 else if sint av > sint bv then 1 else 0)
           | _ \<Rightarrow> Panic TypeAssertionFailed)
      | _ \<Rightarrow> Panic TypeAssertionFailed)"

section \<open>The standard library: package \<^verbatim>\<open>time\<close>\<close>

text \<open>
  The package \<^verbatim>\<open>time\<close> is not part of the repository. The functions the package
  \<^verbatim>\<open>sql\<close> calls are modelled after the Go standard library, specialised to the two
  layouts the package uses: \<^verbatim>\<open>time.Parse\<close> with \<^verbatim>\<open>"2006-01-02 15:04:05.000000"\<close>
  and \<^verbatim>\<open>Time.Format\<close> with \<^verbatim>\<open>"2006-01-02 15:04:05"\<close>. Calendar arithmetic is done on
  unbounded integers.
\<close>

definition isLeap :: "int \<Rightarrow> bool" where
  "isLeap year = (year mod 4 = 0 \<and> (year mod 100 \<noteq> 0 \<or> year mod 400 = 0))"

definition daysBefore :: "int list" where
  "daysBefore = [0, 31, 59, 90, 120, 151, 181, 212, 243, 273, 304, 334, 365]"

definition daysIn :: "int \<Rightarrow> int \<Rightarrow> int" where
  "daysIn m year =
     (if m = 2 \<and> isLeap year then 29 else daysBefore ! nat m - daysBefore ! nat (m - 1))"

text \<open>Days from 1970-01-01 to the first of January of a year (proleptic Gregorian).\<close>

definition daysSinceEpoch :: "int \<Rightarrow> int" where
  "daysSinceEpoch year =
     365 * (year - 1970) + (year - 1) div 4 - (year - 1) div 100 + (year - 1) div 400 - 477"

text \<open>
  \<^verbatim>\<open>time.Date(year, month, day, hour, min, sec, nsec, time.UTC)\<close> for fields that are in
  range (month 1 to 12, day 1 to the length of the month, and so on), which is how
  \<^verbatim>\<open>time.Parse\<close> calls it.
\<close>

definition time_Date :: "int \<Rightarrow> int \<Rightarrow> int \<Rightarrow> int \<Rightarrow> int \<Rightarrow> int \<Rightarrow> int \<Rightarrow> Time" where
  "time_Date year month day hour mi se nsec =
     (let d = daysSinceEpoch year + daysBefore ! nat (month - 1)
              + (if isLeap year \<and> 3 \<le> month then 1 else 0) + (day - 1)
      in Time (d * 86400 + (hour * 3600 + mi * 60 + se)) nsec UTC)"

text \<open>\<^verbatim>\<open>time.Unix(sec, nsec)\<close> with \<open>0 \<le> nsec < 10\<^sup>9\<close>: the local time of that instant.\<close>

definition time_Unix :: "64 word \<Rightarrow> int \<Rightarrow> Time" where
  "time_Unix s nsec = Time (sint s) nsec Local"

definition time_Before :: "Time \<Rightarrow> Time \<Rightarrow> bool" where
  "time_Before t u =
     (unixSec t < unixSec u \<or> unixSec t = unixSec u \<and> nanos t < nanos u)"

definition time_After :: "Time \<Rightarrow> Time \<Rightarrow> bool" where
  "time_After t u =
     (unixSec t > unixSec u \<or> unixSec t = unixSec u \<and> nanos t > nanos u)"

subsection \<open>Parsing\<close>

text \<open>\<^verbatim>\<open>leadingInt\<close>: the leading decimal digits of a text and the rest of it.\<close>

fun leadingInt :: "int \<Rightarrow> string \<Rightarrow> (int \<times> string) option" where
  "leadingInt x [] = Some (x, [])"
| "leadingInt x (c # cs) =
     (if \<not> isDigit c then Some (x, c # cs)
      else if x > 2 ^ 63 div 10 then None
      else (let x' = x * 10 + digitVal c
            in if x' > 2 ^ 63 then None else leadingInt x' cs))"

definition time_atoi :: "string \<Rightarrow> int option" where
  "time_atoi s =
     (let signed = (s \<noteq> [] \<and> (hd s = CHR ''-'' \<or> hd s = CHR ''+''));
          neg = (signed \<and> hd s = CHR ''-'');
          r = (if signed then tl s else s)
      in case leadingInt 0 r of
           None \<Rightarrow> None
         | Some (q, rem) \<Rightarrow>
             if rem \<noteq> [] then None else Some (if neg then - q else q))"

text \<open>\<^verbatim>\<open>getnum(s, fixed)\<close>: a number of one or two digits (of two when \<open>fixed\<close>).\<close>

fun getnum :: "string \<Rightarrow> bool \<Rightarrow> (int \<times> string) option" where
  "getnum [] fixed = None"
| "getnum [c] fixed = (if isDigit c \<and> \<not> fixed then Some (digitVal c, []) else None)"
| "getnum (c # d # s) fixed =
     (if \<not> isDigit c then None
      else if \<not> isDigit d then (if fixed then None else Some (digitVal c, d # s))
      else Some (digitVal c * 10 + digitVal d, s))"

text \<open>
  \<^verbatim>\<open>skip(value, prefix)\<close> for the one-character prefixes of the layout: a space of the
  layout stands for any number of spaces of the value (none too, at the end of the
  value), any other character for itself.
\<close>

definition skip :: "string \<Rightarrow> char \<Rightarrow> string option" where
  "skip v p =
     (if p = CHR '' '' then
        (if v \<noteq> [] \<and> hd v \<noteq> CHR '' '' then None
         else Some (dropWhile (\<lambda>c. c = CHR '' '') v))
      else if v = [] \<or> hd v \<noteq> p then None
      else Some (tl v))"

text \<open>The separator of the fraction (the comma is accepted from Go 1.17 on).\<close>

definition commaOrPeriod :: "char \<Rightarrow> bool" where
  "commaOrPeriod c = (c = CHR ''.'' \<or> c = CHR '','')"

text \<open>
  \<^verbatim>\<open>parseNanoseconds(value, nbytes)\<close> for \<open>nbytes \<le> 10\<close> and a value of at least
  \<open>nbytes\<close> bytes: the separator, then \<open>nbytes - 1\<close> bytes read by \<^verbatim>\<open>atoi\<close>, scaled
  to nanoseconds.
\<close>

definition parseNanoseconds :: "string \<Rightarrow> nat \<Rightarrow> int option" where
  "parseNanoseconds v nbytes =
     (if \<not> commaOrPeriod (hd v) then None
      else (case time_atoi (take (nbytes - 1) (tl v)) of
              None \<Rightarrow> None
            | Some ns \<Rightarrow> if ns < 0 then None else Some (ns * 10 ^ (10 - nbytes))))"

text \<open>
  \<^verbatim>\<open>time.Parse("2006-01-02 15:04:05.000000", value)\<close>. The layout is cut into the year
  (four digits), \<^verbatim>\<open>-\<close>, the month (two digits), \<^verbatim>\<open>-\<close>, the day (two digits), a
  space, the hour (one or two digits), \<^verbatim>\<open>:\<close>, the minute (two digits), \<^verbatim>\<open>:\<close>, the
  second (two digits) and a fraction of exactly six places; nothing may follow. The
  day is checked against the month at the end, and the time is in UTC. \<open>None\<close> stands
  for every \<^verbatim>\<open>ParseError\<close>.
\<close>

definition time_Parse :: "string \<Rightarrow> Time option" where
  "time_Parse v0 =
     (if length v0 < 4 \<or> \<not> isDigit (hd v0) then None
      else do {
        year \<leftarrow> time_atoi (take 4 v0);
        v1 \<leftarrow> skip (drop 4 v0) (CHR ''-'');
        (month, v2) \<leftarrow> getnum v1 True;
        if month \<le> 0 \<or> 12 < month then None
        else do {
          v3 \<leftarrow> skip v2 (CHR ''-'');
          (day, v4) \<leftarrow> getnum v3 True;
          v5 \<leftarrow> skip v4 (CHR '' '');
          (hour, v6) \<leftarrow> getnum v5 False;
          if 24 \<le> hour then None
          else do {
            v7 \<leftarrow> skip v6 (CHR '':'');
            (mi, v8) \<leftarrow> getnum v7 True;
            if 60 \<le> mi then None
            else do {
              v9 \<leftarrow> skip v8 (CHR '':'');
              (se, v10) \<leftarrow> getnum v9 True;
              if 60 \<le> se then None
              else if length v10 < 7 then None
              else do {
                nsec \<leftarrow> parseNanoseconds v10 7;
                if drop 7 v10 \<noteq> [] then None
                else if day < 1 \<or> day > daysIn month year then None
                else Some (time_Date year month day hour mi se nsec)
              }
            }
          }
        }
      })"

subsection \<open>Formatting\<close>

definition digitChar :: "nat \<Rightarrow> char" where
  "digitChar d = ''0123456789'' ! d"

fun decimal :: "nat \<Rightarrow> string" where
  "decimal n = (if n < 10 then [digitChar n] else decimal (n div 10) @ [digitChar (n mod 10)])"

declare decimal.simps [simp del]

text \<open>\<^verbatim>\<open>appendInt(b, x, width)\<close>: the decimal text of \<open>x\<close>, padded with zeros to the width.\<close>

definition appendInt :: "int \<Rightarrow> nat \<Rightarrow> string" where
  "appendInt x width =
     (let ds = decimal (nat \<bar>x\<bar>)
      in (if x < 0 then ''-'' else []) @ replicate (width - length ds) (CHR ''0'') @ ds)"

text \<open>The civil date (year, month, day) of a day number counted from 1970-01-01.\<close>

definition civil :: "int \<Rightarrow> int \<times> int \<times> int" where
  "civil days =
     (let z = days + 719468;
          era = z div 146097;
          doe = z mod 146097;
          yoe = (doe - doe div 1460 + doe div 36524 - doe div 146096) div 365;
          doy = doe - (365 * yoe + yoe div 4 - yoe div 100);
          mp = (5 * doy + 2) div 153;
          d = doy - (153 * mp + 2) div 5 + 1;
          m = (if mp < 10 then mp + 3 else mp - 9);
          y = yoe + era * 400 + (if m \<le> 2 then 1 else 0)
      in (y, m, d))"

text \<open>
  \<^verbatim>\<open>t.Format("2006-01-02 15:04:05")\<close>. The date and the clock are those of the time's
  location; \<open>off\<close> gives the offset of the local zone from UTC, in seconds, at a Unix
  time.
\<close>

definition time_Format :: "(int \<Rightarrow> int) \<Rightarrow> Time \<Rightarrow> string" where
  "time_Format off t =
     (let a = unixSec t + (case location t of UTC \<Rightarrow> 0 | Local \<Rightarrow> off (unixSec t));
          (year, month, day) = civil (a div 86400);
          s = a mod 86400
      in appendInt year 4 @ ''-'' @ appendInt month 2 @ ''-'' @ appendInt day 2 @ '' ''
         @ appendInt (s div 3600) 2 @ '':'' @ appendInt (s mod 3600 div 60) 2 @ '':''
         @ appendInt (s mod 60) 2)"

section \<open>The standard library: comparing bytes\<close>

text \<open>
  \<^verbatim>\<open>bytes.Compare\<close> and \<^verbatim>\<open>strings.Compare\<close> compare two byte sequences and give
  \<open>-1\<close>, \<open>0\<close> or \<open>1\<close>: the first byte that differs decides, and a proper prefix is
  smaller.
\<close>

fun bytes_Compare :: "string \<Rightarrow> string \<Rightarrow> int" where
  "bytes_Compare [] [] = 0"
| "bytes_Compare [] (y # ys) = - 1"
| "bytes_Compare (x # xs) [] = 1"
| "bytes_Compare (x # xs) (y # ys) =
     (if (of_char x :: nat) < of_char y then - 1
      else if (of_char y :: nat) < of_char x then 1
      else bytes_Compare xs ys)"

definition strings_Compare :: "string \<Rightarrow> string \<Rightarrow> int" where
  "strings_Compare a b = bytes_Compare a b"

section \<open>The standard library: comparing 32-bit floating-point numbers\<close>

text \<open>
  Go's \<^verbatim>\<open><\<close> on \<^verbatim>\<open>float32\<close> is the IEEE 754 comparison, here on the bit patterns: a
  NaN (all exponent bits set, fraction not zero) is smaller than nothing and nothing is
  smaller than it; otherwise the numbers compare as their sign and magnitude do, both
  zeros being equal.
\<close>

definition f32_isNaN :: "32 word \<Rightarrow> bool" where
  "f32_isNaN w = ((w AND 0x7F800000) = 0x7F800000 \<and> (w AND 0x007FFFFF) \<noteq> 0)"

definition f32_key :: "32 word \<Rightarrow> int" where
  "f32_key w = (if bit w 31 then - uint (w AND 0x7FFFFFFF) else uint (w AND 0x7FFFFFFF))"

definition f32_less :: "32 word \<Rightarrow> 32 word \<Rightarrow> bool" where
  "f32_less a b = (\<not> f32_isNaN a \<and> \<not> f32_isNaN b \<and> f32_key a < f32_key b)"

section \<open>The other parts of the environment\<close>

text \<open>
  What the package takes from its environment and no property below depends on: the
  offset of the local time zone from UTC at a Unix time (in seconds), the text
  \<^verbatim>\<open>Time.String()\<close> gives for a time, and the decimal text of a 64-bit float
  (\<^verbatim>\<open>strconv.AppendFloat(nil, f, 'g', -1, 64)\<close>, on the bit pattern).
\<close>

record Env =
  LocalOffset :: "int \<Rightarrow> int"
  TimeString :: "Time \<Rightarrow> string"
  FormatFloat :: "64 word \<Rightarrow> string"

text \<open>
  The values that implement \<^verbatim>\<open>fmt.Stringer\<close>, with the text their \<^verbatim>\<open>String()\<close>
  method returns: a \<^verbatim>\<open>time.Time\<close>, and the values of other types that declare the
  method.
\<close>

definition stringer :: "Env \<Rightarrow> iface \<Rightarrow> string option" where
  "stringer env v =
     (case v of VTime t \<Rightarrow> Some (TimeString env t) | VOther _ so \<Rightarrow> so | _ \<Rightarrow> None)"

text \<open>\<^verbatim>\<open>reflect.TypeOf(v)\<close>, as the name \<^verbatim>\<open>String()\<close> gives; it is nil for a nil interface.\<close>

fun reflect_TypeOf :: "iface \<Rightarrow> string option" where
  "reflect_TypeOf VNil = None"
| "reflect_TypeOf (VInt _) = Some ''int''"
| "reflect_TypeOf (VInt8 _) = Some ''int8''"
| "reflect_TypeOf (VInt16 _) = Some ''int16''"
| "reflect_TypeOf (VInt32 _) = Some ''int32''"
| "reflect_TypeOf (VInt64 _) = Some ''int64''"
| "reflect_TypeOf (VUint _) = Some ''uint''"
| "reflect_TypeOf (VUint8 _) = Some ''uint8''"
| "reflect_TypeOf (VUint16 _) = Some ''uint16''"
| "reflect_TypeOf (VUint32 _) = Some ''uint32''"
| "reflect_TypeOf (VUint64 _) = Some ''uint64''"
| "reflect_TypeOf (VFloat32 _) = Some ''float32''"
| "reflect_TypeOf (VFloat64 _) = Some ''float64''"
| "reflect_TypeOf (VString _) = Some ''string''"
| "reflect_TypeOf (VBool _) = Some ''bool''"
| "reflect_TypeOf (VBytes _) = Some ''[]uint8''"
| "reflect_TypeOf (VTime _) = Some ''time.Time''"
| "reflect_TypeOf (VOther n _) = Some n"

section \<open>String, Boolean, Float, Timestamp, Null and Blob\<close>

fun checkString :: "iface \<Rightarrow> bool" where
  "checkString (VString _) = True"
| "checkString _ = False"

definition convertToString :: "Env \<Rightarrow> iface \<Rightarrow> error + iface" where
  "convertToString env v =
     (case v of
        VString s \<Rightarrow> Inr (VString s)
      | _ \<Rightarrow> (case stringer env v of
                Some s \<Rightarrow> Inr (VString s)
              | None \<Rightarrow> Inl ErrInvalidType))"

definition compareString :: "iface \<Rightarrow> iface \<Rightarrow> int go" where
  "compareString a b =
     (case a of
        VString av \<Rightarrow>
          (case b of
             VString bv \<Rightarrow> Return (strings_Compare av bv)
           | _ \<Rightarrow> Panic TypeAssertionFailed)
      | _ \<Rightarrow> Panic TypeAssertionFailed)"

fun checkBoolean :: "iface \<Rightarrow> bool" where
  "checkBoolean (VBool _) = True"
| "checkBoolean _ = False"

fun convertToBool :: "iface \<Rightarrow> error + iface" where
  "convertToBool (VBool b) = Inr (VBool b)"
| "convertToBool _ = Inl ErrInvalidType"

definition compareBool :: "iface \<Rightarrow> iface \<Rightarrow> int go" where
  "compareBool a b =
     (case a of
        VBool av \<Rightarrow>
          (case b of
             VBool bv \<Rightarrow> Return (if av = bv then 0 else if av = False then - 1 else 1)
           | _ \<Rightarrow> Panic TypeAssertionFailed)
      | _ \<Rightarrow> Panic TypeAssertionFailed)"

fun checkFloat64 :: "iface \<Rightarrow> bool" where
  "checkFloat64 (VFloat32 _) = True"
| "checkFloat64 _ = False"

fun convertToFloat64 :: "iface \<Rightarrow> error + iface" where
  "convertToFloat64 (VFloat32 f) = Inr (VFloat32 f)"
| "convertToFloat64 _ = Inl ErrInvalidType"

definition compareFloat64 :: "iface \<Rightarrow> iface \<Rightarrow> int go" where
  "compareFloat64 a b =
     (case a of
        VFloat32 av \<Rightarrow>
          (case b of
             VFloat32 bv \<Rightarrow>
               Return (if f32_less av bv then - 1 else if f32_less bv av then 1 else 0)
           | _ \<Rightarrow> Panic TypeAssertionFailed)
      | _ \<Rightarrow> Panic TypeAssertionFailed)"

fun checkTimestamp :: "iface \<Rightarrow> bool" where
  "checkTimestamp (VTime _) = True"
| "checkTimestamp _ = False"

text \<open>
  In the default branch the source asks \<^verbatim>\<open>BigInteger.Check(v)\<close> before it calls
  \<^verbatim>\<open>BigInteger.Convert(v)\<close> and asserts the result to be an \<^verbatim>\<open>int64\<close>.
\<close>

definition convertToTimestamp :: "iface \<Rightarrow> (error + iface) go" where
  "convertToTimestamp v =
     (case v of
        VTime t \<Rightarrow> Return (Inr (VTime t))
      | VString s \<Rightarrow>
          (case time_Parse s of
             None \<Rightarrow> Return (Inl (ErrCantConvertTime s))
           | Some t \<Rightarrow> Return (Inr (VTime t)))
      | _ \<Rightarrow>
          if \<not> checkInt64 v then Return (Inl ErrInvalidType)
          else (case convertToInt64 v of
                  Inl err \<Rightarrow> Return (Inl ErrInvalidType)
                | Inr bi \<Rightarrow>
                    (case bi of
                       VInt64 i \<Rightarrow> Return (Inr (VTime (time_Unix i 0)))
                     | _ \<Rightarrow> Panic TypeAssertionFailed)))"

definition compareTimestamp :: "iface \<Rightarrow> iface \<Rightarrow> int go" where
  "compareTimestamp a b =
     (case a of
        VTime av \<Rightarrow>
          (case b of
             VTime bv \<Rightarrow>
               Return (if time_Before av bv then - 1 else if time_After av bv then 1 else 0)
           | _ \<Rightarrow> Panic TypeAssertionFailed)
      | _ \<Rightarrow> Panic TypeAssertionFailed)"

definition nullType_Check :: "iface \<Rightarrow> bool" where
  "nullType_Check v = (v = VNil)"

definition nullType_Convert :: "iface \<Rightarrow> error + iface" where
  "nullType_Convert v = (if v \<noteq> VNil then Inl (ErrNotNil v) else Inr VNil)"

definition nullType_Compare :: "iface \<Rightarrow> iface \<Rightarrow> int go" where
  "nullType_Compare a b = Return 0"

fun blobType_Check :: "iface \<Rightarrow> bool" where
  "blobType_Check (VBytes _) = True"
| "blobType_Check _ = False"

definition blobType_Convert :: "Env \<Rightarrow> iface \<Rightarrow> error + iface" where
  "blobType_Convert env v =
     (case v of
        VBytes b \<Rightarrow> Inr (VBytes b)
      | VString s \<Rightarrow> Inr (VBytes s)
      | _ \<Rightarrow> (case stringer env v of
                Some s \<Rightarrow> Inr (VBytes s)
              | None \<Rightarrow> Inl ErrInvalidType))"

definition blobType_Compare :: "iface \<Rightarrow> iface \<Rightarrow> int go" where
  "blobType_Compare a b =
     (case a of
        VBytes av \<Rightarrow>
          (case b of
             VBytes bv \<Rightarrow> Return (bytes_Compare av bv)
           | _ \<Rightarrow> Panic TypeAssertionFailed)
      | _ \<Rightarrow> Panic TypeAssertionFailed)"

section \<open>The interface \<^verbatim>\<open>Type\<close> and its eight implementations\<close>

datatype Type =
    nullType
  | integerType
  | bigIntegerType
  | timestampWithTimeZoneType
  | stringType
  | booleanType
  | floatType
  | blobType

fun Check :: "Type \<Rightarrow> iface \<Rightarrow> bool" where
  "Check nullType v = nullType_Check v"
| "Check integerType v = checkInt32 v"
| "Check bigIntegerType v = checkInt64 v"
| "Check timestampWithTimeZoneType v = checkTimestamp v"
| "Check stringType v = checkString v"
| "Check booleanType v = checkBoolean v"
| "Check floatType v = checkFloat64 v"
| "Check blobType v = blobType_Check v"

fun Convert :: "Env \<Rightarrow> Type \<Rightarrow> iface \<Rightarrow> (error + iface) go" where
  "Convert env nullType v = Return (nullType_Convert v)"
| "Convert env integerType v = Return (convertToInt32 v)"
| "Convert env bigIntegerType v = Return (convertToInt64 v)"
| "Convert env timestampWithTimeZoneType v = convertToTimestamp v"
| "Convert env stringType v = Return (convertToString env v)"
| "Convert env booleanType v = Return (convertToBool v)"
| "Convert env floatType v = Return (convertToFloat64 v)"
| "Convert env blobType v = Return (blobType_Convert env v)"

fun Compare :: "Type \<Rightarrow> iface \<Rightarrow> iface \<Rightarrow> int go" where
  "Compare nullType a b = nullType_Compare a b"
| "Compare integerType a b = compareInt32 a b"
| "Compare bigIntegerType a b = compareInt64 a b"
| "Compare timestampWithTimeZoneType a b = compareTimestamp a b"
| "Compare stringType a b = compareString a b"
| "Compare booleanType a b = compareBool a b"
| "Compare floatType a b = compareFloat64 a b"
| "Compare blobType a b = blobType_Compare a b"

definition MustConvert :: "Env \<Rightarrow> Type \<Rightarrow> iface \<Rightarrow> iface go" where
  "MustConvert env t v =
     (case Convert env t v of
        Panic p \<Rightarrow> Panic p
      | Return (Inl err) \<Rightarrow> Panic (MustConvertFailed err)
      | Return (Inr c) \<Rightarrow> Return c)"

subsection \<open>Serialisation\<close>

datatype query_Type =
    sqltypes_Null
  | sqltypes_Int32
  | sqltypes_Int64
  | sqltypes_Float64
  | sqltypes_Text
  | sqltypes_Bit
  | sqltypes_Timestamp
  | sqltypes_Blob

text \<open>A \<^verbatim>\<open>sqltypes.Value\<close>: the type tag and the bytes.\<close>

datatype sqlvalue = Value query_Type string

definition sqltypes_NULL :: sqlvalue where
  "sqltypes_NULL = Value sqltypes_Null []"

text \<open>\<^verbatim>\<open>strconv.AppendInt(nil, x, 10)\<close>, by which \<^verbatim>\<open>NewInt32\<close> and \<^verbatim>\<open>NewInt64\<close> build the bytes.\<close>

definition formatInt :: "int \<Rightarrow> string" where
  "formatInt x = (if x < 0 then ''-'' else []) @ decimal (nat \<bar>x\<bar>)"

fun SQL :: "Env \<Rightarrow> Type \<Rightarrow> iface \<Rightarrow> sqlvalue go" where
  "SQL env nullType v = Return sqltypes_NULL"
| "SQL env integerType v =
     (case MustConvert env integerType v of
        Panic p \<Rightarrow> Panic p
      | Return (VInt32 i) \<Rightarrow> Return (Value sqltypes_Int32 (formatInt (sint i)))
      | Return _ \<Rightarrow> Panic TypeAssertionFailed)"
| "SQL env bigIntegerType v =
     (case MustConvert env bigIntegerType v of
        Panic p \<Rightarrow> Panic p
      | Return (VInt64 i) \<Rightarrow> Return (Value sqltypes_Int64 (formatInt (sint i)))
      | Return _ \<Rightarrow> Panic TypeAssertionFailed)"
| "SQL env timestampWithTimeZoneType v =
     (case MustConvert env timestampWithTimeZoneType v of
        Panic p \<Rightarrow> Panic p
      | Return (VTime t) \<Rightarrow>
          Return (Value sqltypes_Timestamp (time_Format (LocalOffset env) t))
      | Return _ \<Rightarrow> Panic TypeAssertionFailed)"
| "SQL env stringType v =
     (case MustConvert env stringType v of
        Panic p \<Rightarrow> Panic p
      | Return (VString s) \<Rightarrow> Return (Value sqltypes_Text s)
      | Return _ \<Rightarrow> Panic TypeAssertionFailed)"
| "SQL env booleanType v =
     (case MustConvert env booleanType v of
        Panic p \<Rightarrow> Panic p
      | Return (VBool b) \<Rightarrow> Return (Value sqltypes_Bit (if b then ''1'' else ''0''))
      | Return _ \<Rightarrow> Panic TypeAssertionFailed)"
| "SQL env floatType v =
     (case MustConvert env floatType v of
        Panic p \<Rightarrow> Panic p
      | Return (VFloat64 f) \<Rightarrow> Return (Value sqltypes_Float64 (FormatFloat env f))
      | Return _ \<Rightarrow> Panic TypeAssertionFailed)"
| "SQL env blobType v =
     (case MustConvert env blobType v of
        Panic p \<Rightarrow> Panic p
      | Return (VBytes b) \<Rightarrow> Return (Value sqltypes_Blob b)
      | Return _ \<Rightarrow> Panic TypeAssertionFailed)"

section \<open>Columns, schemas and rows\<close>

text \<open>
  A column holds one of the eight types; a schema is a list of columns (the nil
  pointers and nil interfaces Go would allow in their place are not modelled).
\<close>

record Column =
  Name :: string
  Type :: Type
  Default :: iface
  Nullable :: bool

type_synonym Schema = "Column list"

type_synonym Row = "iface list"

definition Column_Check :: "Column \<Rightarrow> iface \<Rightarrow> bool" where
  "Column_Check c v = (if v = VNil then Nullable c else Check (Type c) v)"

text \<open>
  The loop of \<^verbatim>\<open>CheckRow\<close> over the columns from index \<open>idx\<close> on. The method
  \<^verbatim>\<open>String()\<close> is called on the result of \<^verbatim>\<open>reflect.TypeOf(v)\<close>, which is nil for a nil
  value.
\<close>

fun CheckRow_loop :: "Row \<Rightarrow> nat \<Rightarrow> Schema \<Rightarrow> error option go" where
  "CheckRow_loop row idx [] = Return None"
| "CheckRow_loop row idx (f # fs) =
     (if length row \<le> idx then Panic IndexOutOfRange
      else (let v = row ! idx
            in if Column_Check f v then CheckRow_loop row (Suc idx) fs
               else (case reflect_TypeOf v of
                       None \<Rightarrow> Panic NilDereference
                     | Some typ \<Rightarrow> Return (Some (ErrUnexpectedType idx typ)))))"

definition CheckRow :: "Schema \<Rightarrow> Row \<Rightarrow> error option go" where
  "CheckRow s row =
     (let expected = length s; got = length row
      in if expected \<noteq> got then Return (Some (ErrExpectedValues expected got))
         else CheckRow_loop row 0 s)"

section \<open>Properties\<close>

text \<open>
  The definitions of this section are not taken from the source. They say what the
  specification speaks of (the order of bytes, the number a float denotes, the instant
  of a time, a text of the form of a timestamp, the number an integer denotes), for the
  theorems to compare the source with.
\<close>

text \<open>An environment to evaluate the functions in: UTC as the local zone, empty texts.\<close>

definition env0 :: Env where
  "env0 = \<lparr>LocalOffset = (\<lambda>_. 0), TimeString = (\<lambda>_. []), FormatFloat = (\<lambda>_. [])\<rparr>"








text \<open>The number an integer of any width denotes.\<close>

fun intValue :: "iface \<Rightarrow> int option" where
  "intValue (VInt i) = Some (sint i)"
| "intValue (VInt8 i) = Some (sint i)"
| "intValue (VInt16 i) = Some (sint i)"
| "intValue (VInt32 i) = Some (sint i)"
| "intValue (VInt64 i) = Some (sint i)"
| "intValue (VUint u) = Some (uint u)"
| "intValue (VUint8 u) = Some (uint u)"
| "intValue (VUint16 u) = Some (uint u)"
| "intValue (VUint32 u) = Some (uint u)"
| "intValue (VUint64 u) = Some (uint u)"
| "intValue _ = None"

subsection \<open>Orders\<close>











subsection \<open>Integer conversion and overflow\<close>

text \<open>
  C1. The specification says that \<^verbatim>\<open>Integer.Convert\<close> fails with an overflow error for
  every integer or decimal text whose value lies outside \<open>[-2\<^sup>3\<^sup>1, 2\<^sup>3\<^sup>1 - 1]\<close>. The
  branches for \<^verbatim>\<open>int64\<close>, \<^verbatim>\<open>uint\<close>, \<^verbatim>\<open>uint32\<close> and \<^verbatim>\<open>uint64\<close> check the range; the
  branch for \<^verbatim>\<open>int\<close> does not: the \<^verbatim>\<open>int\<close> value \<open>2147483648\<close> is converted without
  error, to the 32-bit value \<open>-2147483648\<close>.
\<close>

theorem Integer_Convert_int_wraps:
  "convertToInt32 (VInt 2147483648) = Inr (VInt32 (- 2147483648))
   \<and> sint (- 2147483648 :: 32 word) = - 2147483648"
  by simp

text \<open>The branch for text, which narrows the result of \<^verbatim>\<open>strconv.Atoi\<close>, does the same.\<close>

lemma Integer_Convert_text_wraps:
  "convertToInt32 (VString ''2147483648'') = Inr (VInt32 (- 2147483648))"
  by code_simp

text \<open>The branch for \<^verbatim>\<open>int64\<close> reports the overflow, and 42 converts at every width.\<close>

lemma Integer_Convert_int64_overflow:
  "convertToInt32 (VInt64 2147483648) = Inl (ErrOverflowsInt32 2147483648)"
  by simp

lemma Integer_Convert_42:
  "convertToInt32 (VInt 42) = Inr (VInt32 42)"
  "convertToInt32 (VInt8 42) = Inr (VInt32 42)"
  "convertToInt32 (VInt16 42) = Inr (VInt32 42)"
  "convertToInt32 (VInt32 42) = Inr (VInt32 42)"
  "convertToInt32 (VInt64 42) = Inr (VInt32 42)"
  "convertToInt32 (VUint 42) = Inr (VInt32 42)"
  "convertToInt32 (VUint8 42) = Inr (VInt32 42)"
  "convertToInt32 (VUint16 42) = Inr (VInt32 42)"
  "convertToInt32 (VUint32 42) = Inr (VInt32 42)"
  "convertToInt32 (VUint64 42) = Inr (VInt32 42)"
  by simp_all

text \<open>
  Every integer that is not an \<^verbatim>\<open>int\<close> is converted as the specification says: to the
  32-bit value of the same number when it lies in the range, to the overflow error
  otherwise.
\<close>

lemma sint_word_of_int_32:
  assumes "- (2 ^ 31) \<le> n" "n \<le> 2 ^ 31 - 1"
  shows "sint (word_of_int n :: 32 word) = n"
proof -
  have "sint (word_of_int n :: 32 word) = signed_take_bit (LENGTH(32) - 1) n"
    by (rule sint_sbintrunc')
  also have "\<dots> = signed_take_bit 31 n" by simp
  also have "\<dots> = n" using assms by (intro signed_take_bit_int_eq_self) simp_all
  finally show ?thesis .
qed

lemma ucast_64_32_sint: "(ucast (x :: 64 word) :: 32 word) = word_of_int (sint x)"
proof -
  have "take_bit 32 (sint x) = take_bit 32 (signed_take_bit (LENGTH(64) - Suc 0) (uint x))"
    by (simp only: sint_uint)
  also have "\<dots> = take_bit 32 (uint x)"
    by (rule take_bit_signed_take_bit) simp
  finally have "take_bit LENGTH(32) (uint x) = take_bit LENGTH(32) (sint x)" by simp
  then have "(word_of_int (uint x) :: 32 word) = word_of_int (sint x)"
    by (simp only: word_of_int_eq_iff)
  then show ?thesis by (simp only: ucast_eq)
qed

lemma convertToInt32_checked:
  assumes "intValue v = Some n" "\<forall>i. v \<noteq> VInt i"
  shows "convertToInt32 v =
     (if n < - (2 ^ 31) \<or> 2 ^ 31 - 1 < n then Inl (ErrOverflowsInt32 n)
      else Inr (VInt32 (word_of_int n)))"
proof (cases v)
  case (VInt8 i)
  have "- (2 ^ 7) \<le> sint i" "sint i < 2 ^ 7" using sint_ge [of i] sint_lt [of i] by simp_all
  with VInt8 assms show ?thesis by (auto simp: scast_eq)
next
  case (VInt16 i)
  have "- (2 ^ 15) \<le> sint i" "sint i < 2 ^ 15" using sint_ge [of i] sint_lt [of i] by simp_all
  with VInt16 assms show ?thesis by (auto simp: scast_eq)
next
  case (VInt32 i)
  have "- (2 ^ 31) \<le> sint i" "sint i < 2 ^ 31" using sint_ge [of i] sint_lt [of i] by simp_all
  with VInt32 assms show ?thesis by auto
next
  case (VInt64 i)
  with assms show ?thesis by (auto simp: ucast_64_32_sint)
next
  case (VUint8 u)
  have "0 \<le> uint u" "uint u < 2 ^ 8" using uint_bounded [of u] by simp_all
  with VUint8 assms show ?thesis by (auto simp: ucast_eq)
next
  case (VUint16 u)
  have "0 \<le> uint u" "uint u < 2 ^ 16" using uint_bounded [of u] by simp_all
  with VUint16 assms show ?thesis by (auto simp: ucast_eq)
next
  case (VUint u)
  have "0 \<le> uint u" by simp
  with VUint assms show ?thesis by (auto simp: ucast_eq)
next
  case (VUint32 u)
  have "0 \<le> uint u" by simp
  with VUint32 assms show ?thesis by (auto simp: ucast_eq)
next
  case (VUint64 u)
  have "0 \<le> uint u" by simp
  with VUint64 assms show ?thesis by (auto simp: ucast_eq)
qed (use assms in simp_all)

text \<open>
  C4. The specification says that \<^verbatim>\<open>BigInteger.Convert\<close> fails with an overflow error for
  every unsigned integer of value at least \<open>2\<^sup>6\<^sup>3\<close>. The branch for \<^verbatim>\<open>uint64\<close> checks
  it; the branch for \<^verbatim>\<open>uint\<close> does not: the \<^verbatim>\<open>uint\<close> value \<open>9223372036854775808\<close> is
  converted without error, to the 64-bit value \<open>-9223372036854775808\<close>.
\<close>

theorem BigInteger_Convert_uint_wraps:
  "convertToInt64 (VUint 9223372036854775808) = Inr (VInt64 (- 9223372036854775808))
   \<and> sint (- 9223372036854775808 :: 64 word) = - 9223372036854775808"
  by simp

lemma BigInteger_Convert_uint64_overflow:
  "uint u \<ge> 2 ^ 63 \<Longrightarrow> convertToInt64 (VUint64 u) = Inl (ErrOverflowsInt64 (uint u))"
  by simp

subsection \<open>Conversion of canonical values\<close>

text \<open>
  C3. For every built-in type \<open>T\<close> and every value \<open>v\<close> that \<open>T.Check\<close> accepts,
  \<open>T.Convert(v)\<close> returns \<open>v\<close> itself and no error.
\<close>

theorem Convert_idempotent:
  assumes "Check T v"
  shows "Convert env T v = Return (Inr v)"
  using assms
  by (cases T; cases v)
     (simp_all add: nullType_Check_def nullType_Convert_def convertToTimestamp_def
        convertToString_def blobType_Convert_def)

theorem Convert_idempotent_witness:
  "Check floatType (VFloat32 0x3F800000)
   \<and> Convert env0 floatType (VFloat32 0x3F800000) = Return (Inr (VFloat32 0x3F800000))"
  using Convert_idempotent [of floatType "VFloat32 0x3F800000" env0] by simp

subsection \<open>Serialisation of floats\<close>

text \<open>
  C9. \<^verbatim>\<open>Float.SQL(v)\<close> panics for every value \<open>v\<close>: for a 32-bit float, which
  \<^verbatim>\<open>Float.Convert\<close> returns as it is, the assertion to \<^verbatim>\<open>float64\<close> fails; for every
  other value, a 64-bit float too, \<^verbatim>\<open>Float.Convert\<close> fails and \<^verbatim>\<open>MustConvert\<close> panics.
\<close>

theorem Float_SQL_panics:
  "SQL env floatType v =
     Panic (case v of VFloat32 f \<Rightarrow> TypeAssertionFailed | _ \<Rightarrow> MustConvertFailed ErrInvalidType)"
  by (cases v) (simp_all add: MustConvert_def)

theorem Float_SQL_panics_witness:
  "SQL env0 floatType (VFloat32 0x3F800000) = Panic TypeAssertionFailed
   \<and> SQL env0 floatType (VFloat64 0x3FF0000000000000) = Panic (MustConvertFailed ErrInvalidType)"
  using Float_SQL_panics [of env0 "VFloat32 0x3F800000"]
    Float_SQL_panics [of env0 "VFloat64 0x3FF0000000000000"]
  by simp

subsection \<open>Comparison of nulls\<close>

text \<open>
  C10. \<^verbatim>\<open>Null.Compare\<close> returns 0 for every pair of arguments, whatever they are.
\<close>

theorem Null_Compare_always_equal: "Compare nullType a b = Return 0"
  by (simp add: nullType_Compare_def)

theorem Null_Compare_always_equal_witness:
  "Compare nullType (VInt32 7) (VString ''x'') = Return 0"
  by (rule Null_Compare_always_equal)

subsection \<open>Timestamps\<close>















lemma time_Parse_examples:
  "time_Parse ''2023-01-02 15:04:05.000000'' = Some (Time 1672671845 0 UTC)"
  "time_Parse ''1970-01-01 00:00:00.000001'' = Some (Time 0 1000 UTC)"
  "time_Parse ''2024-02-29 23:59:59.999999'' = Some (Time 1709251199 999999000 UTC)"
  "time_Parse ''2023-01-02T15:04:05.000000'' = None"
  "time_Parse ''2023-01-02 15:04:05'' = None"
  "time_Parse ''2023-02-29 15:04:05.000000'' = None"
  "time_Parse ''2023-13-01 15:04:05.000000'' = None"
  "time_Parse ''2023-01-02 24:00:00.000000'' = None"
  "time_Parse ''2023-01-02 15:04:05.000000Z'' = None"
  "time_Parse ''yesterday'' = None"
  "time_Parse [] = None"
  by code_simp+






subsection \<open>Checking rows\<close>

text \<open>
  A row of another length than the schema is refused with both lengths; a row of the
  same length passes when every column accepts its value; otherwise the first value
  that its column refuses decides: an error with its position and the name of its type,
  or the panic when there is no type to name.
\<close>

lemma CheckRow_length_mismatch:
  "length row \<noteq> length s \<Longrightarrow>
     CheckRow s row = Return (Some (ErrExpectedValues (length s) (length row)))"
  by (auto simp: CheckRow_def Let_def)

lemma CheckRow_loop_all:
  "idx + length fs = length row \<Longrightarrow> \<forall>k<length fs. Column_Check (fs ! k) (row ! (idx + k))
   \<Longrightarrow> CheckRow_loop row idx fs = Return None"
proof (induction fs arbitrary: idx)
  case Nil
  then show ?case by simp
next
  case (Cons f fs)
  from Cons.prems(2) have 0: "Column_Check f (row ! idx)" by fastforce
  have "\<forall>k<length fs. Column_Check (fs ! k) (row ! (Suc idx + k))"
    using Cons.prems(2) by fastforce
  with Cons.IH [of "Suc idx"] Cons.prems(1) have "CheckRow_loop row (Suc idx) fs = Return None"
    by simp
  with 0 Cons.prems(1) show ?case by simp
qed

lemma CheckRow_loop_first:
  "idx + length fs = length row \<Longrightarrow> i < length fs
   \<Longrightarrow> \<not> Column_Check (fs ! i) (row ! (idx + i))
   \<Longrightarrow> \<forall>k<i. Column_Check (fs ! k) (row ! (idx + k))
   \<Longrightarrow> CheckRow_loop row idx fs =
        (case reflect_TypeOf (row ! (idx + i)) of
           None \<Rightarrow> Panic NilDereference
         | Some typ \<Rightarrow> Return (Some (ErrUnexpectedType (idx + i) typ)))"
proof (induction fs arbitrary: idx i)
  case Nil
  then show ?case by simp
next
  case (Cons f fs)
  show ?case
  proof (cases i)
    case 0
    with Cons.prems show ?thesis by (simp split: option.split)
  next
    case (Suc j)
    from Cons.prems(4) Suc have 0: "Column_Check f (row ! idx)" by fastforce
    have a: "\<forall>k<j. Column_Check (fs ! k) (row ! (Suc idx + k))"
      using Cons.prems(4) Suc by fastforce
    have b: "\<not> Column_Check (fs ! j) (row ! (Suc idx + j))"
      using Cons.prems(3) Suc by simp
    have "CheckRow_loop row (Suc idx) fs =
        (case reflect_TypeOf (row ! (Suc idx + j)) of
           None \<Rightarrow> Panic NilDereference
         | Some typ \<Rightarrow> Return (Some (ErrUnexpectedType (Suc idx + j) typ)))"
      using Cons.IH [of "Suc idx" j] Cons.prems(1,2) Suc a b by simp
    with 0 Cons.prems(1) Suc show ?thesis by (simp split: option.split)
  qed
qed

lemma CheckRow_passes:
  assumes "length row = length s" "\<forall>k<length s. Column_Check (s ! k) (row ! k)"
  shows "CheckRow s row = Return None"
  using assms CheckRow_loop_all [of 0 s row] by (simp add: CheckRow_def)

lemma CheckRow_first_failure:
  assumes "length row = length s" "i < length s" "\<not> Column_Check (s ! i) (row ! i)"
    "\<forall>k<i. Column_Check (s ! k) (row ! k)"
  shows "CheckRow s row =
        (case reflect_TypeOf (row ! i) of
           None \<Rightarrow> Panic NilDereference
         | Some typ \<Rightarrow> Return (Some (ErrUnexpectedType i typ)))"
  using assms CheckRow_loop_first [of 0 s row i] by (simp add: CheckRow_def split: option.split)

lemma reflect_TypeOf_None_iff: "reflect_TypeOf v = None \<longleftrightarrow> v = VNil"
  by (cases v) simp_all

lemma CheckRow_three_columns_two_values:
  "CheckRow [c1, c2, c3] [v1, v2] = Return (Some (ErrExpectedValues 3 2))"
  by (simp add: CheckRow_def)

text \<open>
  \<^verbatim>\<open>Convert\<close> itself returns for every type, every value and every environment;
  \<^verbatim>\<open>Compare\<close> panics outside the canonical values.
\<close>

lemma Convert_returns: "\<exists>r. Convert env T v = Return r"
proof (cases T)
  case timestampWithTimeZoneType
  then show ?thesis
    by (cases v) (simp_all add: convertToTimestamp_def split: option.split)
qed simp_all

lemma Compare_noncanonical_panics:
  "Compare integerType (VInt64 1) (VInt32 1) = Panic TypeAssertionFailed"
  "Compare stringType VNil (VString []) = Panic TypeAssertionFailed"
  by (simp_all add: compareInt32_def compareString_def)

text \<open>
  C2. The specification says that \<^verbatim>\<open>Convert\<close>, \<^verbatim>\<open>Check\<close> and \<^verbatim>\<open>CheckRow\<close> return for
  every input and never panic. \<^verbatim>\<open>CheckRow\<close> panics on a row that holds nil in a column
  that is not nullable: the check of the column fails, and the error message asks the
  nil result of \<^verbatim>\<open>reflect.TypeOf(nil)\<close> for its name.
\<close>

theorem CheckRow_nil_panics:
  "CheckRow [\<lparr>Name = ''a'', Type = integerType, Default = VNil, Nullable = False\<rparr>] [VNil]
     = Panic NilDereference"
  by (simp add: CheckRow_def Column_Check_def)

text \<open>
  C8. The specification says that \<^verbatim>\<open>CheckRow\<close> fails, at the first position whose check
  is false, with an error that names the position and the dynamic type of the value.
  When that value is nil there is no error: \<^verbatim>\<open>CheckRow\<close> panics, here at position 1 of a
  row of two values.
\<close>

theorem CheckRow_second_nil_panics:
  "CheckRow [\<lparr>Name = ''a'', Type = integerType, Default = VInt32 0, Nullable = False\<rparr>,
             \<lparr>Name = ''b'', Type = stringType, Default = VString [], Nullable = False\<rparr>]
            [VInt32 1, VNil]
     = Panic NilDereference"
  by (simp add: CheckRow_def Column_Check_def)

subsection \<open>Comparison\<close>



text \<open>A NaN compares equal to every 32-bit float, itself included.\<close>

lemma compareFloat64_NaN:
  assumes "f32_isNaN f"
  shows "compareFloat64 (VFloat32 f) (VFloat32 g) = Return 0"
    and "compareFloat64 (VFloat32 g) (VFloat32 f) = Return 0"
  using assms by (simp_all add: compareFloat64_def f32_less_def)




end
